theory Spec2Isabelle
  imports Main
begin

section \<open>PaginatedTweetLister: app/tweets/queries/getTweets.ts\<close>

text \<open>
  The resolver is \<^verbatim>\<open>resolver.pipe(resolver.authorize(), async ({where, orderBy, skip = 0,
  take = 100}) => ...)\<close>. The handler is in the source; \<^verbatim>\<open>paginate\<close>,
  \<^verbatim>\<open>resolver.pipe\<close> and \<^verbatim>\<open>resolver.authorize\<close> are imported from the
  \<^verbatim>\<open>blitz\<close> package and \<^verbatim>\<open>db\<close> is the Prisma client: none of them is part of the
  source tree, so they are modelled from the specification and marked as such.

  \<^item> \<open>'w\<close>, \<open>'o\<close> and \<open>'t\<close> are the opaque filter, ordering and tweet record types.
  \<^item> \<^verbatim>\<open>skip\<close>, \<^verbatim>\<open>take\<close> and the count are \<open>int\<close>: Prisma's 32-bit integer arguments,
    whose sums a JavaScript number holds exactly.
  \<^item> An omitted (\<^verbatim>\<open>undefined\<close>) argument is \<open>None\<close>.
  \<^item> A rejected promise is \<open>Inl\<close> of an error.
  \<^item> Every call to the persistence collaborator is appended to a log that is threaded
    through the computation, so that "the operation was never invoked" can be stated.
\<close>

datatype resolver_error = AuthenticationError | PersistenceError string

text \<open>\<^verbatim>\<open>interface GetTweetsInput extends Pick<Prisma.TweetFindManyArgs, "where" | "orderBy" |
  "skip" | "take">\<close>. The field names carry a prefix because \<^verbatim>\<open>where\<close> is a keyword and
  \<^verbatim>\<open>take\<close> a list function.\<close>

record ('w, 'o) GetTweetsInput =
  in_where :: 'w
  in_orderBy :: 'o
  in_skip :: "int option"
  in_take :: "int option"

text \<open>The object \<^verbatim>\<open>{skip, take}\<close> that \<^verbatim>\<open>paginate\<close> hands to its query callback, and the
  cursor \<^verbatim>\<open>{skip, take}\<close> it returns as \<^verbatim>\<open>nextPage\<close>.\<close>

record PaginateArgs =
  pg_skip :: int
  pg_take :: int

text \<open>\<^verbatim>\<open>{...paginateArgs, where, orderBy}\<close>: the spread is a record extension.\<close>

record ('w, 'o) FindManyArgs = PaginateArgs +
  fm_where :: 'w
  fm_orderBy :: 'o

text \<open>What \<^verbatim>\<open>paginate\<close> resolves to.\<close>

record 't PaginateResult =
  items :: "'t list"
  pr_nextPage :: "PaginateArgs option"
  pr_hasMore :: bool
  pr_count :: int

text \<open>The object the handler returns (the TweetPage of the specification).\<close>

record 't TweetPage =
  tweets :: "'t list"
  nextPage :: "PaginateArgs option"
  hasMore :: bool
  count :: int

text \<open>The persistence collaborator \<^verbatim>\<open>db.tweet\<close>: what \<^verbatim>\<open>count({where})\<close> and
  \<^verbatim>\<open>findMany({skip, take, where, orderBy})\<close> answer. \<open>Inl m\<close> is an exception with
  message \<open>m\<close>.\<close>

record ('w, 'o, 't) TweetDb =
  count_response :: "'w \<Rightarrow> string + int"
  findMany_response :: "('w, 'o) FindManyArgs \<Rightarrow> string + 't list"

datatype ('w, 'o) db_call = Count 'w | FindMany "('w, 'o) FindManyArgs"

type_synonym ('w, 'o) db_log = "('w, 'o) db_call list"

type_synonym ('w, 'o, 'a) db_io =
  "('w, 'o) db_log \<Rightarrow> (resolver_error + 'a) \<times> ('w, 'o) db_log"

definition raised :: "string + 'a \<Rightarrow> resolver_error + 'a" where
  "raised r = (case r of Inl m \<Rightarrow> Inl (PersistenceError m) | Inr v \<Rightarrow> Inr v)"

text \<open>\<^verbatim>\<open>db.tweet.count({ where })\<close>\<close>

definition tweet_count :: "('w, 'o, 't) TweetDb \<Rightarrow> 'w \<Rightarrow> ('w, 'o, int) db_io" where
  "tweet_count db w log = (raised (count_response db w), log @ [Count w])"

text \<open>\<^verbatim>\<open>db.tweet.findMany(args)\<close>\<close>

definition tweet_findMany ::
  "('w, 'o, 't) TweetDb \<Rightarrow> ('w, 'o) FindManyArgs \<Rightarrow> ('w, 'o, 't list) db_io" where
  "tweet_findMany db args log = (raised (findMany_response db args), log @ [FindMany args])"

text \<open>
  Modelled from the spec: \<^verbatim>\<open>paginate\<close> of the \<^verbatim>\<open>blitz\<close> package, which is imported by
  getTweets.ts and is not in the source tree. Section 4.1 of the specification, steps 1 to
  5: invoke the count operation, obtaining \<open>totalCount\<close>; invoke the find operation with
  \<open>skip\<close> and \<open>take\<close>, obtaining \<open>items\<close>; \<open>hasMore = skip + items.length < totalCount\<close>;
  \<open>nextPage = hasMore ? {skip: skip + take, take} : null\<close>; return the items, \<open>hasMore\<close>,
  \<open>nextPage\<close> and \<open>count: totalCount\<close>. Whatever the collaborator raises is surfaced
  without recovery, and no validation of \<open>skip\<close> or \<open>take\<close> is performed.
\<close>

definition paginate ::
  "int \<Rightarrow> int \<Rightarrow> ('w, 'o, int) db_io \<Rightarrow> (PaginateArgs \<Rightarrow> ('w, 'o, 't list) db_io) \<Rightarrow>
   ('w, 'o, 't PaginateResult) db_io" where
  "paginate skip take' countQuery query log =
     (case countQuery log of
        (Inl e, log1) \<Rightarrow> (Inl e, log1)
      | (Inr totalCount, log1) \<Rightarrow>
          (case query \<lparr>pg_skip = skip, pg_take = take'\<rparr> log1 of
             (Inl e, log2) \<Rightarrow> (Inl e, log2)
           | (Inr its, log2) \<Rightarrow>
               (let hasMore' = (skip + int (length its) < totalCount);
                    nextPage' = (if hasMore' then Some \<lparr>pg_skip = skip + take', pg_take = take'\<rparr>
                                 else None)
                in (Inr \<lparr>items = its, pr_nextPage = nextPage', pr_hasMore = hasMore',
                         pr_count = totalCount\<rparr>, log2))))"

text \<open>
  The destructuring pattern \<^verbatim>\<open>{ where, orderBy, skip = 0, take = 100 }\<close> of getTweets.ts,
  line 9: a default applies when the property is \<^verbatim>\<open>undefined\<close>.
\<close>

definition skip_of :: "('w, 'o) GetTweetsInput \<Rightarrow> int" where
  "skip_of inp = (case in_skip inp of None \<Rightarrow> 0 | Some v \<Rightarrow> v)"

definition take_of :: "('w, 'o) GetTweetsInput \<Rightarrow> int" where
  "take_of inp = (case in_take inp of None \<Rightarrow> 100 | Some v \<Rightarrow> v)"

text \<open>The handler of getTweets.ts, lines 9 to 29.\<close>

definition getTweets_handler ::
  "('w, 'o, 't) TweetDb \<Rightarrow> ('w, 'o) GetTweetsInput \<Rightarrow> ('w, 'o, 't TweetPage) db_io" where
  "getTweets_handler db inp log =
     (let where' = in_where inp;
          orderBy = in_orderBy inp;
          skip = skip_of inp;
          take' = take_of inp
      in case paginate skip take'
                (tweet_count db where')
                (\<lambda>paginateArgs. tweet_findMany db
                   (PaginateArgs.extend paginateArgs
                      (FindManyArgs.fields where' orderBy)))
                log of
           (Inl e, log') \<Rightarrow> (Inl e, log')
         | (Inr r, log') \<Rightarrow>
             (Inr \<lparr>tweets = items r, nextPage = pr_nextPage r, hasMore = pr_hasMore r,
                   count = pr_count r\<rparr>, log'))"

text \<open>
  Modelled from the spec: \<^verbatim>\<open>resolver.authorize()\<close> of the \<^verbatim>\<open>blitz\<close> package, not in
  the source tree. Sections 4.1 and 6: a pre-check invoked before the lister runs, which
  rejects unauthorized callers with a distinct "unauthorized" condition. \<open>gate\<close> is the
  authorization collaborator's verdict on the caller's context; the input passes through.
\<close>

definition resolver_authorize ::
  "('c \<Rightarrow> bool) \<Rightarrow> 'a \<Rightarrow> 'c \<Rightarrow> 's \<Rightarrow> (resolver_error + 'a) \<times> 's" where
  "resolver_authorize gate inp ctx log =
     (if gate ctx then (Inr inp, log) else (Inl AuthenticationError, log))"

text \<open>
  Modelled from the spec: \<^verbatim>\<open>resolver.pipe\<close> of the \<^verbatim>\<open>blitz\<close> package, not in the source
  tree. Section 9: ordered composition, the authorization gate first, returning early on
  failure; the handler receives what the gate passes on.
\<close>

definition resolver_pipe ::
  "('a \<Rightarrow> 'c \<Rightarrow> 's \<Rightarrow> (resolver_error + 'b) \<times> 's) \<Rightarrow> ('b \<Rightarrow> 's \<Rightarrow> (resolver_error + 'r) \<times> 's) \<Rightarrow>
   'a \<Rightarrow> 'c \<Rightarrow> 's \<Rightarrow> (resolver_error + 'r) \<times> 's" where
  "resolver_pipe f g inp ctx log =
     (case f inp ctx log of
        (Inl e, log') \<Rightarrow> (Inl e, log')
      | (Inr v, log') \<Rightarrow> g v log')"

text \<open>The default export of getTweets.ts.\<close>

definition getTweets ::
  "('c \<Rightarrow> bool) \<Rightarrow> ('w, 'o, 't) TweetDb \<Rightarrow> ('w, 'o) GetTweetsInput \<Rightarrow> 'c \<Rightarrow>
   ('w, 'o, 't TweetPage) db_io" where
  "getTweets gate db = resolver_pipe (resolver_authorize gate) (getTweets_handler db)"

text \<open>The find request an input leads to.\<close>

definition find_request :: "('w, 'o) GetTweetsInput \<Rightarrow> ('w, 'o) FindManyArgs" where
  "find_request inp =
     \<lparr>pg_skip = skip_of inp, pg_take = take_of inp,
      fm_where = in_where inp, fm_orderBy = in_orderBy inp\<rparr>"

section \<open>TweetLookupProxy: app/api/twitter.ts\<close>

text \<open>
  The handler reads \<^verbatim>\<open>req.query.url\<close>, asks \<^verbatim>\<open>tweetIdParser\<close> for the identifier,
  fetches the tweet and then its author from the Twitter API and ends the response with
  the merged object.

  \<^item> A JavaScript value is a \<open>js\<close>; an object is an association list read with
    \<open>map_of\<close>.
  \<^item> A thrown exception or rejected promise is \<open>Inl\<close> of an error: \<open>TypeError\<close> for a
    property read on \<^verbatim>\<open>undefined\<close> or \<^verbatim>\<open>null\<close>, \<open>Rejected m\<close> for what a collaborator
    raises.
  \<^item> The collaborators and platform functions are the fields of an environment:
    \<^verbatim>\<open>tweetIdParser\<close> (app/utils/twitter) and the two endpoint constants
    (app/constatnts) are not in the source tree and are parameters, as are \<^verbatim>\<open>fetch\<close>,
    \<^verbatim>\<open>Response.json\<close>, \<^verbatim>\<open>URLSearchParams\<close>, \<^verbatim>\<open>JSON.stringify\<close> and the
    environment variable.
  \<^item> Every call to the parser, every \<^verbatim>\<open>fetch\<close> and the \<^verbatim>\<open>res.end\<close> are appended to a
    trace that is threaded through the computation.
\<close>

datatype js =
    Undefined
  | Null
  | Bool bool
  | Num int
  | Str string
  | Arr "js list"
  | Obj "(string \<times> js) list"

datatype proxy_error = TypeError | Rejected string

text \<open>\<^verbatim>\<open>req.query.url\<close> has the type \<^verbatim>\<open>string | string[] | undefined\<close>.\<close>

datatype query_value = Absent | Single string | Multi "string list"

record BlitzApiRequest =
  query_url :: query_value

text \<open>The argument of the parser is a string or, when an empty array is indexed,
  \<^verbatim>\<open>undefined\<close> (\<open>None\<close>); the cast \<^verbatim>\<open>as string\<close> does nothing at run time.\<close>

record 'r proxy_env =
  twitter__tweet_endpoint :: string
  twitter__user_endpoint :: string
  tweetIdParser :: "string option \<Rightarrow> string + string"
  TWITTER_BEARER_TOKEN :: "string option"
  fetch :: "string \<Rightarrow> (string \<times> string) list \<Rightarrow> string + 'r"
  json :: "'r \<Rightarrow> string + js"
  urlSearchParams :: "(string \<times> string) list \<Rightarrow> string"
  toString_other :: "js \<Rightarrow> string"
  stringify :: "js \<Rightarrow> string"

datatype event =
    ParseCall "string option"
  | FetchCall string "(string \<times> string) list"
  | ResEnd string

type_synonym 'a proxy_io = "event list \<Rightarrow> (proxy_error + 'a) \<times> event list"

definition bindE :: "'a proxy_io \<Rightarrow> ('a \<Rightarrow> 'b proxy_io) \<Rightarrow> 'b proxy_io" where
  "bindE m f tr = (case m tr of (Inl e, tr') \<Rightarrow> (Inl e, tr') | (Inr v, tr') \<Rightarrow> f v tr')"

definition liftE :: "proxy_error + 'a \<Rightarrow> 'a proxy_io" where
  "liftE r tr = (r, tr)"

definition rejected :: "string + 'a \<Rightarrow> proxy_error + 'a" where
  "rejected r = (case r of Inl m \<Rightarrow> Inl (Rejected m) | Inr v \<Rightarrow> Inr v)"

definition call_tweetIdParser :: "'r proxy_env \<Rightarrow> string option \<Rightarrow> string proxy_io" where
  "call_tweetIdParser env arg tr = (rejected (tweetIdParser env arg), tr @ [ParseCall arg])"

definition call_fetch :: "'r proxy_env \<Rightarrow> string \<Rightarrow> (string \<times> string) list \<Rightarrow> 'r proxy_io" where
  "call_fetch env url hdrs tr = (rejected (fetch env url hdrs), tr @ [FetchCall url hdrs])"

definition call_json :: "'r proxy_env \<Rightarrow> 'r \<Rightarrow> js proxy_io" where
  "call_json env r = liftE (rejected (json env r))"

definition res_end :: "string \<Rightarrow> unit proxy_io" where
  "res_end body tr = (Inr (), tr @ [ResEnd body])"

text \<open>
  \<^verbatim>\<open>v.name\<close> for the names the handler reads (\<^verbatim>\<open>data\<close>, \<^verbatim>\<open>author_id\<close>, \<^verbatim>\<open>text\<close>,
  \<^verbatim>\<open>created_at\<close>, \<^verbatim>\<open>public_metrics\<close>), none of which an array, a string, a number or
  a boolean has: the read throws on \<^verbatim>\<open>undefined\<close> and \<^verbatim>\<open>null\<close>, finds the property of
  an object or yields \<^verbatim>\<open>undefined\<close>.
\<close>

fun member_value :: "js \<Rightarrow> string \<Rightarrow> js" where
  "member_value (Obj kvs) k = (case map_of kvs k of None \<Rightarrow> Undefined | Some v \<Rightarrow> v)"
| "member_value v k = Undefined"

fun get_member :: "js \<Rightarrow> string \<Rightarrow> proxy_error + js" where
  "get_member Undefined k = Inl TypeError"
| "get_member Null k = Inl TypeError"
| "get_member v k = Inr (member_value v k)"

text \<open>\<^verbatim>\<open>v[0]\<close>: the first element of an array, the first character of a string, the
  property \<^verbatim>\<open>"0"\<close> of an object, \<^verbatim>\<open>undefined\<close> when there is none.\<close>

fun index0 :: "js \<Rightarrow> proxy_error + js" where
  "index0 Undefined = Inl TypeError"
| "index0 Null = Inl TypeError"
| "index0 (Arr xs) = Inr (case xs of [] \<Rightarrow> Undefined | x # _ \<Rightarrow> x)"
| "index0 (Str s) = Inr (case s of [] \<Rightarrow> Undefined | c # _ \<Rightarrow> Str [c])"
| "index0 v = Inr (member_value v ''0'')"

text \<open>A value inside a template literal: a string is itself, \<^verbatim>\<open>undefined\<close>, \<^verbatim>\<open>null\<close> and
  the booleans are their names; the formatting of numbers, arrays and objects is the
  platform's.\<close>

fun template :: "'r proxy_env \<Rightarrow> js \<Rightarrow> string" where
  "template env (Str s) = s"
| "template env Undefined = ''undefined''"
| "template env Null = ''null''"
| "template env (Bool b) = (if b then ''true'' else ''false'')"
| "template env v = toString_other env v"

text \<open>Lines 7 to 11: the normalisation of \<^verbatim>\<open>req.query.url\<close>.\<close>

fun normalize_url :: "query_value \<Rightarrow> string option" where
  "normalize_url Absent = Some ''''"
| "normalize_url (Multi xs) = (case xs of [] \<Rightarrow> None | x # _ \<Rightarrow> Some x)"
| "normalize_url (Single s) = Some s"

text \<open>Lines 14 to 21 and the headers of both requests.\<close>

definition tweetParams :: "string \<Rightarrow> (string \<times> string) list" where
  "tweetParams ident =
     [(''ids'', ident), (''tweet.fields'', ''author_id,public_metrics,created_at'')]"

definition userParams :: "(string \<times> string) list" where
  "userParams = [(''user.fields'', ''profile_image_url'')]"

definition headers :: "'r proxy_env \<Rightarrow> (string \<times> string) list" where
  "headers env =
     [(''authorization'',
       ''Bearer '' @ (case TWITTER_BEARER_TOKEN env of None \<Rightarrow> ''undefined'' | Some t \<Rightarrow> t))]"

definition tweet_url :: "'r proxy_env \<Rightarrow> string \<Rightarrow> string" where
  "tweet_url env ident = twitter__tweet_endpoint env @ urlSearchParams env (tweetParams ident)"

definition user_url :: "'r proxy_env \<Rightarrow> js \<Rightarrow> string" where
  "user_url env author_id =
     twitter__user_endpoint env @ template env author_id @ ''?'' @ urlSearchParams env userParams"

text \<open>The object handed to \<^verbatim>\<open>JSON.stringify\<close>, lines 40 to 46.\<close>

definition merged :: "string \<Rightarrow> js \<Rightarrow> js \<Rightarrow> js \<Rightarrow> js \<Rightarrow> js" where
  "merged ident user text created_at public_metrics =
     Obj [(''id'', Str ident), (''user'', user), (''text'', text),
          (''created_at'', created_at), (''public_metrics'', public_metrics)]"

text \<open>The handler, lines 5 to 48.\<close>

definition handler :: "'r proxy_env \<Rightarrow> BlitzApiRequest \<Rightarrow> unit proxy_io" where
  "handler env req =
     bindE (call_tweetIdParser env (normalize_url (query_url req))) (\<lambda>ident.
     bindE (call_fetch env (tweet_url env ident) (headers env)) (\<lambda>tweetResponse.
     bindE (call_json env tweetResponse) (\<lambda>tweetBody.
     bindE (liftE (get_member tweetBody ''data'')) (\<lambda>tweetData.
     bindE (liftE (index0 tweetData)) (\<lambda>tweet.
     bindE (liftE (get_member tweet ''author_id'')) (\<lambda>author_id.
     bindE (call_fetch env (user_url env author_id) (headers env)) (\<lambda>userResponse.
     bindE (call_json env userResponse) (\<lambda>userBody.
     bindE (liftE (get_member userBody ''data'')) (\<lambda>user.
     bindE (liftE (get_member tweet ''text'')) (\<lambda>text.
     bindE (liftE (get_member tweet ''created_at'')) (\<lambda>created_at.
     bindE (liftE (get_member tweet ''public_metrics'')) (\<lambda>public_metrics.
     res_end (stringify env (merged ident user text created_at public_metrics))))))))))))))"

text \<open>The arguments the parser was called with, in order.\<close>

fun parser_inputs :: "event list \<Rightarrow> string option list" where
  "parser_inputs [] = []"
| "parser_inputs (ParseCall a # es) = a # parser_inputs es"
| "parser_inputs (e # es) = parser_inputs es"

text \<open>A computation that leaves the list of parser calls as it found it.\<close>

definition no_parser_call :: "'a proxy_io \<Rightarrow> bool" where
  "no_parser_call m = (\<forall>tr. parser_inputs (snd (m tr)) = parser_inputs tr)"

section \<open>Concrete collaborators\<close>

text \<open>A session is the identifier of the logged-in user, if any.\<close>

definition logged_in :: "string option \<Rightarrow> bool" where
  "logged_in userId = (case userId of None \<Rightarrow> False | Some u \<Rightarrow> True)"

text \<open>A table of five tweets (numbered 10 to 14) that every filter matches.\<close>

definition example_db :: "(string, string, nat) TweetDb" where
  "example_db =
     \<lparr>count_response = (\<lambda>w. Inr 5),
      findMany_response =
        (\<lambda>a. Inr (take (nat (pg_take a)) (drop (nat (pg_skip a)) [10, 11, 12, 13, 14])))\<rparr>"

definition example_input :: "int option \<Rightarrow> int option \<Rightarrow> (string, string) GetTweetsInput" where
  "example_input s t = \<lparr>in_where = ''all'', in_orderBy = ''id'', in_skip = s, in_take = t\<rparr>"

text \<open>The exchange of section 8, property 7 of the specification: a tweet with text T1 by
  author A1, whose profile image is http://img. A response is its parsed body.\<close>

definition example_tweet :: js where
  "example_tweet =
     Obj [(''text'', Str ''T1''), (''author_id'', Str ''A1''),
          (''public_metrics'', Obj [(''like_count'', Num 3)]),
          (''created_at'', Str ''2020-01-01T00:00:00Z'')]"

definition example_user :: js where
  "example_user = Obj [(''profile_image_url'', Str ''http://img'')]"

definition example_env :: "js proxy_env" where
  "example_env =
     \<lparr>twitter__tweet_endpoint = ''/2/tweets?'',
      twitter__user_endpoint = ''/2/users/'',
      tweetIdParser = (\<lambda>a. case a of None \<Rightarrow> Inl ''no url'' | Some s \<Rightarrow> Inr s),
      TWITTER_BEARER_TOKEN = Some ''secret'',
      fetch = (\<lambda>url hdrs.
         if url = ''/2/tweets?ids=20'' then Inr (Obj [(''data'', Arr [example_tweet])])
         else if url = ''/2/users/A1?user.fields=profile_image_url''
         then Inr (Obj [(''data'', example_user)])
         else Inl ''unreachable''),
      json = Inr,
      urlSearchParams = (\<lambda>ps. case ps of [] \<Rightarrow> [] | (k, v) # _ \<Rightarrow> k @ ''='' @ v),
      toString_other = (\<lambda>v. ''[object Object]''),
      stringify = (\<lambda>v. case v of Obj kvs \<Rightarrow> concat (map fst kvs) | _ \<Rightarrow> [])\<rparr>"

section \<open>Properties of PaginatedTweetLister\<close>

lemma extend_fields:
  "PaginateArgs.extend \<lparr>pg_skip = s, pg_take = t\<rparr> (FindManyArgs.fields w ob) =
   \<lparr>pg_skip = s, pg_take = t, fm_where = w, fm_orderBy = ob\<rparr>"
  by (simp add: PaginateArgs.defs FindManyArgs.defs)

text \<open>When both persistence calls answer, the handler returns this page and has made
  exactly these two calls, the count first.\<close>

lemma getTweets_handler_ok:
  assumes "count_response db (in_where inp) = Inr n"
      and "findMany_response db (find_request inp) = Inr its"
  shows "getTweets_handler db inp log =
     (Inr \<lparr>tweets = its,
           nextPage = (if skip_of inp + int (length its) < n
                       then Some \<lparr>pg_skip = skip_of inp + take_of inp, pg_take = take_of inp\<rparr>
                       else None),
           hasMore = (skip_of inp + int (length its) < n),
           count = n\<rparr>,
      log @ [Count (in_where inp), FindMany (find_request inp)])"
  using assms
  by (simp add: getTweets_handler_def paginate_def tweet_count_def tweet_findMany_def
      raised_def extend_fields find_request_def Let_def)

lemma getTweets_authorized:
  "gate ctx \<Longrightarrow> getTweets gate db inp ctx log = getTweets_handler db inp log"
  by (simp add: getTweets_def resolver_pipe_def resolver_authorize_def)

lemma getTweets_ok:
  assumes "gate ctx"
      and "count_response db (in_where inp) = Inr n"
      and "findMany_response db (find_request inp) = Inr its"
  shows "getTweets gate db inp ctx log =
     (Inr \<lparr>tweets = its,
           nextPage = (if skip_of inp + int (length its) < n
                       then Some \<lparr>pg_skip = skip_of inp + take_of inp, pg_take = take_of inp\<rparr>
                       else None),
           hasMore = (skip_of inp + int (length its) < n),
           count = n\<rparr>,
      log @ [Count (in_where inp), FindMany (find_request inp)])"
  using assms by (simp add: getTweets_authorized getTweets_handler_ok)

text \<open>The resolver returns a page only to an accepted caller whose two persistence calls
  both answered.\<close>

lemma getTweets_Inr_only_if:
  assumes "getTweets gate db inp ctx log = (Inr page, log')"
  shows "gate ctx \<and> (\<exists>n its. count_response db (in_where inp) = Inr n \<and>
           findMany_response db (find_request inp) = Inr its)"
proof -
  have g: "gate ctx"
    using assms
    by (cases "gate ctx") (simp_all add: getTweets_def resolver_pipe_def resolver_authorize_def)
  then have h: "getTweets_handler db inp log = (Inr page, log')"
    using assms by (simp add: getTweets_authorized)
  then have "\<exists>n its. count_response db (in_where inp) = Inr n \<and>
      findMany_response db (find_request inp) = Inr its"
    by (auto simp add: getTweets_handler_def paginate_def tweet_count_def tweet_findMany_def
        raised_def extend_fields find_request_def Let_def split: sum.splits prod.splits)
  with g show ?thesis by simp
qed

text \<open>A failure of the persistence collaborator is never the unauthorized condition.\<close>

lemma handler_never_unauthorized:
  "fst (getTweets_handler db inp log) \<noteq> Inl AuthenticationError"
  by (auto simp add: getTweets_handler_def paginate_def tweet_count_def tweet_findMany_def
      raised_def Let_def split: sum.splits prod.splits)

lemma example_count: "count_response example_db w = Inr 5"
  by (simp add: example_db_def)

text \<open>
  C1. For every invocation with parameters skip and take in which the persistence
  collaborator reports totalCount and returns the list items, the resolver returns a
  page holding those items whose hasMore is \<open>skip + items.length < totalCount\<close>.
\<close>

theorem getTweets_hasMore:
  assumes "gate ctx"
      and "count_response db (in_where inp) = Inr totalCount"
      and "findMany_response db (find_request inp) = Inr its"
  shows "\<exists>page log'. getTweets gate db inp ctx log = (Inr page, log') \<and>
           tweets page = its \<and>
           hasMore page = (skip_of inp + int (length its) < totalCount)"
  using assms by (simp add: getTweets_ok)

theorem getTweets_hasMore_witness:
  "logged_in (Some ''ann'') \<and>
   count_response example_db (in_where (example_input (Some 0) (Some 2))) = Inr 5 \<and>
   findMany_response example_db (find_request (example_input (Some 0) (Some 2))) = Inr [10, 11] \<and>
   (\<exists>page log'.
      getTweets logged_in example_db (example_input (Some 0) (Some 2)) (Some ''ann'') [] =
        (Inr page, log') \<and>
      tweets page = [10, 11] \<and> hasMore page = True)"
proof -
  have g: "logged_in (Some ''ann'')" by (simp add: logged_in_def)
  have c: "count_response example_db (in_where (example_input (Some 0) (Some 2))) = Inr 5"
    by (rule example_count)
  have f: "findMany_response example_db (find_request (example_input (Some 0) (Some 2))) =
      Inr [10, 11]"
    by (simp add: example_db_def find_request_def skip_of_def take_of_def example_input_def)
  have s: "skip_of (example_input (Some 0) (Some 2)) = 0"
    by (simp add: skip_of_def example_input_def)
  from getTweets_hasMore [where gate = logged_in and ctx = "Some ''ann''" and log = "[]", OF g c f]
    g c f s show ?thesis by simp
qed

text \<open>
  C3. The returned page's nextPage is \<open>{skip: skip + take, take: take}\<close> when hasMore is
  true and null when hasMore is false.
\<close>

theorem getTweets_nextPage:
  assumes "gate ctx"
      and "count_response db (in_where inp) = Inr totalCount"
      and "findMany_response db (find_request inp) = Inr its"
  shows "\<exists>page log'. getTweets gate db inp ctx log = (Inr page, log') \<and>
           nextPage page =
             (if hasMore page
              then Some \<lparr>pg_skip = skip_of inp + take_of inp, pg_take = take_of inp\<rparr>
              else None)"
  using assms by (simp add: getTweets_ok)

theorem getTweets_nextPage_witness:
  "logged_in (Some ''ann'') \<and>
   count_response example_db (in_where (example_input (Some 0) (Some 2))) = Inr 5 \<and>
   findMany_response example_db (find_request (example_input (Some 0) (Some 2))) = Inr [10, 11] \<and>
   (\<exists>page log'.
      getTweets logged_in example_db (example_input (Some 0) (Some 2)) (Some ''ann'') [] =
        (Inr page, log') \<and>
      nextPage page = (if hasMore page then Some \<lparr>pg_skip = 2, pg_take = 2\<rparr> else None))"
proof -
  have g: "logged_in (Some ''ann'')" by (simp add: logged_in_def)
  have c: "count_response example_db (in_where (example_input (Some 0) (Some 2))) = Inr 5"
    by (rule example_count)
  have f: "findMany_response example_db (find_request (example_input (Some 0) (Some 2))) =
      Inr [10, 11]"
    by (simp add: example_db_def find_request_def skip_of_def take_of_def example_input_def)
  have s: "skip_of (example_input (Some 0) (Some 2)) = 0"
    and t: "take_of (example_input (Some 0) (Some 2)) = 2"
    by (simp_all add: skip_of_def take_of_def example_input_def)
  from getTweets_nextPage [where gate = logged_in and ctx = "Some ''ann''" and log = "[]", OF g c f]
  obtain page log' where
    r: "getTweets logged_in example_db (example_input (Some 0) (Some 2)) (Some ''ann'') [] =
          (Inr page, log')"
    and n: "nextPage page =
          (if hasMore page
           then Some \<lparr>pg_skip = skip_of (example_input (Some 0) (Some 2)) +
                             take_of (example_input (Some 0) (Some 2)),
                       pg_take = take_of (example_input (Some 0) (Some 2))\<rparr>
           else None)"
    by blast
  from n have "nextPage page = (if hasMore page then Some \<lparr>pg_skip = 2, pg_take = 2\<rparr> else None)"
    unfolding s t by simp
  with g c f r show ?thesis by blast
qed

text \<open>
  C4. For every caller the authorization gate rejects, the resolver fails with the
  unauthorized condition and the log of persistence calls is left as it was: neither the
  count nor the find operation is invoked.
\<close>

theorem getTweets_unauthorized:
  assumes "\<not> gate ctx"
  shows "getTweets gate db inp ctx log = (Inl AuthenticationError, log)"
  using assms by (simp add: getTweets_def resolver_pipe_def resolver_authorize_def)

theorem getTweets_unauthorized_witness:
  "\<not> logged_in None \<and>
   getTweets logged_in example_db (example_input (Some 0) (Some 2)) None [] =
     (Inl AuthenticationError, [])"
proof -
  have g: "\<not> logged_in None" by (simp add: logged_in_def)
  from getTweets_unauthorized [where gate = logged_in and ctx = None, OF g] g
  show ?thesis by simp
qed

text \<open>
  C5. When the persistence collaborator is consistent (the count is the number of
  matching records and the find result is their slice from skip, at most take long) and
  the find operation returns strictly fewer than take items, hasMore is false. The
  offset skip is non-negative, as the data model says.
\<close>

theorem getTweets_short_page:
  assumes "gate ctx"
      and "0 \<le> skip_of inp"
      and "count_response db (in_where inp) = Inr (int (length matching))"
      and "findMany_response db (find_request inp) =
             Inr (take (nat (take_of inp)) (drop (nat (skip_of inp)) matching))"
      and "int (length (take (nat (take_of inp)) (drop (nat (skip_of inp)) matching))) <
             take_of inp"
  shows "\<exists>page log'. getTweets gate db inp ctx log = (Inr page, log') \<and> \<not> hasMore page"
proof -
  let ?its = "take (nat (take_of inp)) (drop (nat (skip_of inp)) matching)"
  have "length ?its = min (nat (take_of inp)) (length matching - nat (skip_of inp))"
    by simp
  with assms(5) have "length ?its = length matching - nat (skip_of inp)"
    by linarith
  with assms(2) have "\<not> skip_of inp + int (length ?its) < int (length matching)"
    by linarith
  then show ?thesis
    using getTweets_ok [where gate = gate and ctx = ctx and log = log,
        OF assms(1) assms(3) assms(4)] by simp
qed

theorem getTweets_short_page_witness:
  "logged_in (Some ''ann'') \<and>
   0 \<le> skip_of (example_input (Some 4) (Some 2)) \<and>
   count_response example_db (in_where (example_input (Some 4) (Some 2))) =
     Inr (int (length [10, 11, 12, 13, 14 :: nat])) \<and>
   findMany_response example_db (find_request (example_input (Some 4) (Some 2))) = Inr [14] \<and>
   int (length [14 :: nat]) < take_of (example_input (Some 4) (Some 2)) \<and>
   (\<exists>page log'.
      getTweets logged_in example_db (example_input (Some 4) (Some 2)) (Some ''ann'') [] =
        (Inr page, log') \<and>
      \<not> hasMore page)"
proof -
  let ?inp = "example_input (Some 4) (Some 2)"
  let ?rows = "[10, 11, 12, 13, 14 :: nat]"
  have s: "skip_of ?inp = 4" and t: "take_of ?inp = 2"
    by (simp_all add: skip_of_def take_of_def example_input_def)
  have sl: "take (nat (take_of ?inp)) (drop (nat (skip_of ?inp)) ?rows) = [14]"
    unfolding s t by simp
  have g: "logged_in (Some ''ann'')" by (simp add: logged_in_def)
  have k: "0 \<le> skip_of ?inp" unfolding s by simp
  have c: "count_response example_db (in_where ?inp) = Inr (int (length ?rows))"
    by (simp add: example_db_def)
  have f: "findMany_response example_db (find_request ?inp) =
      Inr (take (nat (take_of ?inp)) (drop (nat (skip_of ?inp)) ?rows))"
    by (simp add: example_db_def find_request_def)
  have l: "int (length (take (nat (take_of ?inp)) (drop (nat (skip_of ?inp)) ?rows))) <
      take_of ?inp"
    unfolding sl unfolding t by simp
  from getTweets_short_page [where gate = logged_in and ctx = "Some ''ann''" and log = "[]",
      OF g k c f l]
  have e: "\<exists>page log'.
      getTweets logged_in example_db ?inp (Some ''ann'') [] = (Inr page, log') \<and> \<not> hasMore page" .
  from f have f': "findMany_response example_db (find_request ?inp) = Inr [14]"
    unfolding sl .
  from l have l': "int (length [14 :: nat]) < take_of ?inp"
    unfolding sl .
  from g k c f' l' e show ?thesis by blast
qed

text \<open>
  C6. The count field of the returned page is the value the count operation returns for
  the where filter, and it is the same for two invocations that differ only in skip and
  take.
\<close>

theorem getTweets_count:
  assumes "gate ctx"
      and "count_response db (in_where inp) = Inr n"
      and "findMany_response db (find_request inp) = Inr its"
      and "findMany_response db (find_request (inp\<lparr>in_skip := sk, in_take := tk\<rparr>)) = Inr its'"
  shows "\<exists>page log1 page' log2.
           getTweets gate db inp ctx log = (Inr page, log1) \<and>
           getTweets gate db (inp\<lparr>in_skip := sk, in_take := tk\<rparr>) ctx log = (Inr page', log2) \<and>
           count page = n \<and> count page' = n"
proof -
  have w: "count_response db (in_where (inp\<lparr>in_skip := sk, in_take := tk\<rparr>)) = Inr n"
    using assms(2) by simp
  show ?thesis
    using getTweets_ok [where gate = gate and ctx = ctx and log = log,
        OF assms(1) assms(2) assms(3)]
      getTweets_ok [where gate = gate and ctx = ctx and log = log, OF assms(1) w assms(4)]
    by simp
qed

theorem getTweets_count_witness:
  "logged_in (Some ''ann'') \<and>
   count_response example_db (in_where (example_input (Some 0) (Some 2))) = Inr 5 \<and>
   findMany_response example_db (find_request (example_input (Some 0) (Some 2))) = Inr [10, 11] \<and>
   findMany_response example_db
     (find_request ((example_input (Some 0) (Some 2))\<lparr>in_skip := Some 4, in_take := None\<rparr>)) =
     Inr [14] \<and>
   (\<exists>page log1 page' log2.
      getTweets logged_in example_db (example_input (Some 0) (Some 2)) (Some ''ann'') [] =
        (Inr page, log1) \<and>
      getTweets logged_in example_db
        ((example_input (Some 0) (Some 2))\<lparr>in_skip := Some 4, in_take := None\<rparr>)
        (Some ''ann'') [] = (Inr page', log2) \<and>
      count page = 5 \<and> count page' = 5)"
proof -
  have g: "logged_in (Some ''ann'')" by (simp add: logged_in_def)
  have c: "count_response example_db (in_where (example_input (Some 0) (Some 2))) = Inr 5"
    by (rule example_count)
  have f: "findMany_response example_db (find_request (example_input (Some 0) (Some 2))) =
      Inr [10, 11]"
    by (simp add: example_db_def find_request_def skip_of_def take_of_def example_input_def)
  have f': "findMany_response example_db
      (find_request ((example_input (Some 0) (Some 2))\<lparr>in_skip := Some 4, in_take := None\<rparr>)) =
      Inr [14]"
    by (simp add: example_db_def find_request_def skip_of_def take_of_def example_input_def)
  from getTweets_count [where gate = logged_in and ctx = "Some ''ann''" and log = "[]",
      OF g c f f'] g c f f'
  show ?thesis by blast
qed

text \<open>
  C7. For every where and orderBy, the resolver called with skip and take omitted
  returns what it returns when called with skip = 0 and take = 100.
\<close>

theorem getTweets_defaults:
  "getTweets gate db \<lparr>in_where = w, in_orderBy = ob, in_skip = None, in_take = None\<rparr> ctx log =
   getTweets gate db \<lparr>in_where = w, in_orderBy = ob, in_skip = Some 0, in_take = Some 100\<rparr>
     ctx log"
  by (simp add: getTweets_def resolver_pipe_def resolver_authorize_def getTweets_handler_def
      skip_of_def take_of_def)

section \<open>Properties of TweetLookupProxy\<close>

lemma bindE_parser:
  "tweetIdParser env a = Inr v \<Longrightarrow>
   bindE (call_tweetIdParser env a) f tr = f v (tr @ [ParseCall a])"
  by (simp add: bindE_def call_tweetIdParser_def rejected_def)

lemma bindE_fetch:
  "fetch env u h = Inr r \<Longrightarrow> bindE (call_fetch env u h) f tr = f r (tr @ [FetchCall u h])"
  by (simp add: bindE_def call_fetch_def rejected_def)

lemma bindE_json:
  "json env r = Inr b \<Longrightarrow> bindE (call_json env r) f tr = f b tr"
  by (simp add: bindE_def call_json_def liftE_def rejected_def)

lemma bindE_lift_Inr: "r = Inr v \<Longrightarrow> bindE (liftE r) f tr = f v tr"
  by (simp add: bindE_def liftE_def)

text \<open>A value that has one property read has them all: it is neither \<^verbatim>\<open>undefined\<close> nor
  \<^verbatim>\<open>null\<close>.\<close>

lemma get_member_Inr: "get_member v k = Inr a \<Longrightarrow> get_member v k' = Inr (member_value v k')"
  by (cases v) simp_all

text \<open>The successful run of the handler: the calls it makes, in order, and the body it
  emits.\<close>

lemma handler_ok:
  assumes p: "tweetIdParser env (normalize_url (query_url req)) = Inr ident"
      and f1: "fetch env (tweet_url env ident) (headers env) = Inr tweetResponse"
      and j1: "json env tweetResponse = Inr tweetBody"
      and d1: "get_member tweetBody ''data'' = Inr (Arr (tweet # others))"
      and a: "get_member tweet ''author_id'' = Inr author_id"
      and f2: "fetch env (user_url env author_id) (headers env) = Inr userResponse"
      and j2: "json env userResponse = Inr userBody"
      and d2: "get_member userBody ''data'' = Inr user"
  shows "handler env req [] =
     (Inr (),
      [ParseCall (normalize_url (query_url req)),
       FetchCall (tweet_url env ident) (headers env),
       FetchCall (user_url env author_id) (headers env),
       ResEnd (stringify env
         (Obj [(''id'', Str ident), (''user'', user),
               (''text'', member_value tweet ''text''),
               (''created_at'', member_value tweet ''created_at''),
               (''public_metrics'', member_value tweet ''public_metrics'')]))])"
proof -
  have i0: "index0 (Arr (tweet # others)) = Inr tweet" by simp
  note m = get_member_Inr [OF a]
  have t: "get_member tweet ''text'' = Inr (member_value tweet ''text'')"
    and c: "get_member tweet ''created_at'' = Inr (member_value tweet ''created_at'')"
    and q: "get_member tweet ''public_metrics'' = Inr (member_value tweet ''public_metrics'')"
    by (rule m)+
  show ?thesis
    unfolding handler_def
    by (simp only: bindE_parser [OF p] bindE_fetch [OF f1] bindE_json [OF j1]
        bindE_lift_Inr [OF d1] bindE_lift_Inr [OF i0] bindE_lift_Inr [OF a]
        bindE_fetch [OF f2] bindE_json [OF j2] bindE_lift_Inr [OF d2]
        bindE_lift_Inr [OF t] bindE_lift_Inr [OF c] bindE_lift_Inr [OF q]
        res_end_def merged_def append.simps)
qed

lemma parser_inputs_append: "parser_inputs (xs @ ys) = parser_inputs xs @ parser_inputs ys"
  by (induction xs rule: parser_inputs.induct) simp_all

lemma no_parser_call_bindE:
  assumes m: "no_parser_call m" and f: "\<And>v. no_parser_call (f v)"
  shows "no_parser_call (bindE m f)"
  unfolding no_parser_call_def
proof
  fix tr
  obtain r tr' where mt: "m tr = (r, tr')" by (cases "m tr")
  from m [unfolded no_parser_call_def, rule_format, of tr] mt
  have p: "parser_inputs tr' = parser_inputs tr" by simp
  show "parser_inputs (snd (bindE m f tr)) = parser_inputs tr"
  proof (cases r)
    case (Inl e)
    with mt p show ?thesis by (simp add: bindE_def)
  next
    case (Inr v)
    with mt have "bindE m f tr = f v tr'" by (simp add: bindE_def)
    with f [unfolded no_parser_call_def, rule_format, of v tr'] p show ?thesis by simp
  qed
qed

lemma no_parser_call_liftE: "no_parser_call (liftE r)"
  by (simp add: no_parser_call_def liftE_def)

lemma no_parser_call_fetch: "no_parser_call (call_fetch env u h)"
  by (simp add: no_parser_call_def call_fetch_def parser_inputs_append)

lemma no_parser_call_json: "no_parser_call (call_json env r)"
  by (simp add: call_json_def no_parser_call_liftE)

lemma no_parser_call_res_end: "no_parser_call (res_end b)"
  by (simp add: no_parser_call_def res_end_def parser_inputs_append)

lemma parser_called_once:
  assumes "\<And>v. no_parser_call (k v)"
  shows "parser_inputs (snd (bindE (call_tweetIdParser env a) k [])) = [a]"
proof (cases "tweetIdParser env a")
  case (Inl m)
  then show ?thesis by (simp add: bindE_def call_tweetIdParser_def rejected_def)
next
  case (Inr v)
  then have "bindE (call_tweetIdParser env a) k [] = k v [ParseCall a]"
    by (simp add: bindE_def call_tweetIdParser_def rejected_def)
  with assms [of v] show ?thesis by (simp add: no_parser_call_def)
qed

text \<open>Whatever the collaborators answer, the handler calls the parser exactly once, with
  the normalised query parameter.\<close>

lemma handler_parser_inputs:
  "parser_inputs (snd (handler env req [])) = [normalize_url (query_url req)]"
  unfolding handler_def
  by (rule parser_called_once)
     (intro no_parser_call_bindE no_parser_call_liftE no_parser_call_fetch
        no_parser_call_json no_parser_call_res_end)

text \<open>
  C2. When the tweet lookup returns a JSON body whose data array has the first element
  tweet, and the user lookup for tweet.author_id returns a JSON body whose data is user,
  the handler ends the response with the serialisation of
  \<open>{id, user, text: tweet.text, created_at: tweet.created_at, public_metrics:
  tweet.public_metrics}\<close>, where id is what the parser returned; it has made the two
  lookups in that order.
\<close>

theorem handler_response_body:
  assumes "tweetIdParser env (normalize_url (query_url req)) = Inr ident"
      and "fetch env (tweet_url env ident) (headers env) = Inr tweetResponse"
      and "json env tweetResponse = Inr tweetBody"
      and "get_member tweetBody ''data'' = Inr (Arr (tweet # others))"
      and "get_member tweet ''author_id'' = Inr author_id"
      and "fetch env (user_url env author_id) (headers env) = Inr userResponse"
      and "json env userResponse = Inr userBody"
      and "get_member userBody ''data'' = Inr user"
  shows "handler env req [] =
     (Inr (),
      [ParseCall (normalize_url (query_url req)),
       FetchCall (tweet_url env ident) (headers env),
       FetchCall (user_url env author_id) (headers env),
       ResEnd (stringify env
         (Obj [(''id'', Str ident), (''user'', user),
               (''text'', member_value tweet ''text''),
               (''created_at'', member_value tweet ''created_at''),
               (''public_metrics'', member_value tweet ''public_metrics'')]))])"
  using assms by (rule handler_ok)

theorem handler_response_body_witness:
  "tweetIdParser example_env (normalize_url (query_url \<lparr>query_url = Single ''20''\<rparr>)) = Inr ''20'' \<and>
   fetch example_env (tweet_url example_env ''20'') (headers example_env) =
     Inr (Obj [(''data'', Arr [example_tweet])]) \<and>
   json example_env (Obj [(''data'', Arr [example_tweet])]) =
     Inr (Obj [(''data'', Arr [example_tweet])]) \<and>
   get_member (Obj [(''data'', Arr [example_tweet])]) ''data'' = Inr (Arr (example_tweet # [])) \<and>
   get_member example_tweet ''author_id'' = Inr (Str ''A1'') \<and>
   fetch example_env (user_url example_env (Str ''A1'')) (headers example_env) =
     Inr (Obj [(''data'', example_user)]) \<and>
   json example_env (Obj [(''data'', example_user)]) = Inr (Obj [(''data'', example_user)]) \<and>
   get_member (Obj [(''data'', example_user)]) ''data'' = Inr example_user \<and>
   handler example_env \<lparr>query_url = Single ''20''\<rparr> [] =
     (Inr (),
      [ParseCall (Some ''20''),
       FetchCall ''/2/tweets?ids=20'' [(''authorization'', ''Bearer secret'')],
       FetchCall ''/2/users/A1?user.fields=profile_image_url''
         [(''authorization'', ''Bearer secret'')],
       ResEnd (stringify example_env
         (Obj [(''id'', Str ''20''),
               (''user'', Obj [(''profile_image_url'', Str ''http://img'')]),
               (''text'', Str ''T1''),
               (''created_at'', Str ''2020-01-01T00:00:00Z''),
               (''public_metrics'', Obj [(''like_count'', Num 3)])]))])"
proof -
  let ?req = "\<lparr>query_url = Single ''20''\<rparr>"
  let ?b1 = "Obj [(''data'', Arr [example_tweet])]"
  let ?b2 = "Obj [(''data'', example_user)]"
  have n: "normalize_url (query_url ?req) = Some ''20''" by simp
  have u1: "tweet_url example_env ''20'' = ''/2/tweets?ids=20''"
    by (simp add: tweet_url_def tweetParams_def example_env_def)
  have u2: "user_url example_env (Str ''A1'') = ''/2/users/A1?user.fields=profile_image_url''"
    by (simp add: user_url_def userParams_def example_env_def)
  have h: "headers example_env = [(''authorization'', ''Bearer secret'')]"
    by (simp add: headers_def example_env_def)
  have p: "tweetIdParser example_env (normalize_url (query_url ?req)) = Inr ''20''"
    unfolding n by (simp add: example_env_def)
  have f1: "fetch example_env (tweet_url example_env ''20'') (headers example_env) = Inr ?b1"
    unfolding u1 by (simp add: example_env_def)
  have j1: "json example_env ?b1 = Inr ?b1" by (simp add: example_env_def)
  have d1: "get_member ?b1 ''data'' = Inr (Arr (example_tweet # []))" by simp
  have a: "get_member example_tweet ''author_id'' = Inr (Str ''A1'')"
    by (simp add: example_tweet_def)
  have f2: "fetch example_env (user_url example_env (Str ''A1'')) (headers example_env) =
      Inr ?b2"
    unfolding u2 by (simp add: example_env_def)
  have j2: "json example_env ?b2 = Inr ?b2" by (simp add: example_env_def)
  have d2: "get_member ?b2 ''data'' = Inr example_user" by simp
  have t: "member_value example_tweet ''text'' = Str ''T1''"
    and c: "member_value example_tweet ''created_at'' = Str ''2020-01-01T00:00:00Z''"
    and q: "member_value example_tweet ''public_metrics'' = Obj [(''like_count'', Num 3)]"
    by (simp_all add: example_tweet_def)
  have r: "handler example_env ?req [] =
     (Inr (),
      [ParseCall (Some ''20''),
       FetchCall ''/2/tweets?ids=20'' [(''authorization'', ''Bearer secret'')],
       FetchCall ''/2/users/A1?user.fields=profile_image_url''
         [(''authorization'', ''Bearer secret'')],
       ResEnd (stringify example_env
         (Obj [(''id'', Str ''20''),
               (''user'', Obj [(''profile_image_url'', Str ''http://img'')]),
               (''text'', Str ''T1''),
               (''created_at'', Str ''2020-01-01T00:00:00Z''),
               (''public_metrics'', Obj [(''like_count'', Num 3)])]))])"
    using handler_response_body [OF p f1 j1 d1 a f2 j2 d2]
    unfolding n u1 u2 h t c q example_user_def .
  from p f1 j1 d1 a f2 j2 d2 r show ?thesis by blast
qed

text \<open>
  C8. When the url query parameter is absent, the parser is called (once) with the empty
  string.
\<close>

theorem handler_url_absent:
  "parser_inputs (snd (handler env \<lparr>query_url = Absent\<rparr> [])) = [Some '''']"
  by (simp add: handler_parser_inputs)

text \<open>
  C9. When the url query parameter is a sequence of strings, the parser is called (once)
  with the first element of the sequence.
\<close>

theorem handler_url_repeated:
  "parser_inputs (snd (handler env \<lparr>query_url = Multi (x # xs)\<rparr> [])) = [Some x]"
  by (simp add: handler_parser_inputs)

text \<open>
  C10. When the url query parameter is an empty sequence, indexing it yields
  \<^verbatim>\<open>undefined\<close>: the parser is called with no string at all, which is not what it is
  called with when the parameter is absent.
\<close>

theorem handler_url_empty_sequence:
  "normalize_url (Multi []) = None \<and>
   parser_inputs (snd (handler env \<lparr>query_url = Multi []\<rparr> [])) = [None] \<and>
   parser_inputs (snd (handler env \<lparr>query_url = Multi []\<rparr> [])) \<noteq>
     parser_inputs (snd (handler env \<lparr>query_url = Absent\<rparr> []))"
  by (simp add: handler_parser_inputs)

end
